theory Spec2Isabelle
  imports Complex_Main
begin

section \<open>Python primitives used by the fraud engine\<close>

text \<open>
  The engine is \<^verbatim>\<open>AdvancedFraudDetectionEngine\<close> of \<^verbatim>\<open>app_test.py\<close>. Python ints are
  \<open>int\<close>; strings are \<open>string\<close>; a raised exception is a value of \<open>py_error\<close>.
  Python floats are modelled as real numbers, without the rounding of IEEE doubles.
  Where the rounding decides whether the code raises (the square roots of the
  distance), no statement below says that the code returns: it takes the returned
  value as a hypothesis.
\<close>

datatype py_error = ValueError | TypeError | OperationalError

text \<open>\<^verbatim>\<open>math.radians\<close>.\<close>

definition radians :: "real \<Rightarrow> real" where
  "radians x = x * pi / 180"

text \<open>\<^verbatim>\<open>math.sqrt\<close>: a negative argument raises \<^verbatim>\<open>ValueError\<close> (math domain error).\<close>

definition math_sqrt :: "real \<Rightarrow> py_error + real" where
  "math_sqrt x = (if x < 0 then Inl ValueError else Inr (sqrt x))"

text \<open>\<^verbatim>\<open>math.atan2(y, x)\<close>: the angle of the point \<open>(x, y)\<close>, in \<open>(-pi, pi]\<close>.\<close>

definition atan2 :: "real \<Rightarrow> real \<Rightarrow> real" where
  "atan2 y x =
     (if 0 < x then arctan (y / x)
      else if x < 0 then (if 0 \<le> y then arctan (y / x) + pi else arctan (y / x) - pi)
      else if 0 < y then pi / 2
      else if y < 0 then - (pi / 2)
      else 0)"

text \<open>
  \<^verbatim>\<open>np.random.uniform(low, high)\<close> is \<open>low + (high - low) * u\<close> for the generator's next
  sample \<open>u\<close> of \<open>[0, 1)\<close>; \<^verbatim>\<open>np.random.random()\<close> is \<open>u\<close> itself.
\<close>

definition uniform :: "real \<Rightarrow> real \<Rightarrow> real \<Rightarrow> real" where
  "uniform low high u = low + (high - low) * u"

definition unit_sample :: "real \<Rightarrow> bool" where
  "unit_sample u = (0 \<le> u \<and> u < 1)"

subsection \<open>Strings\<close>

text \<open>\<^verbatim>\<open>s.startswith(p)\<close> and \<^verbatim>\<open>needle in s\<close>.\<close>

fun startswith :: "string \<Rightarrow> string \<Rightarrow> bool" where
  "startswith s [] = True"
| "startswith [] (p # ps) = False"
| "startswith (c # cs) (p # ps) = (c = p \<and> startswith cs ps)"

fun contains :: "string \<Rightarrow> string \<Rightarrow> bool" where
  "contains needle [] = (needle = [])"
| "contains needle (c # cs) = (startswith (c # cs) needle \<or> contains needle cs)"

text \<open>Decimal rendering of integers, as \<^verbatim>\<open>str\<close> and the f-string fields do it.\<close>

definition digit_char :: "nat \<Rightarrow> char" where
  "digit_char d = ''0123456789'' ! d"

function str_nat :: "nat \<Rightarrow> string" where
  "str_nat n = (if n < 10 then [digit_char n] else str_nat (n div 10) @ [digit_char (n mod 10)])"
  by pat_completeness auto
termination
  by (relation "measure id") auto

declare str_nat.simps [simp del]

definition str_int :: "int \<Rightarrow> string" where
  "str_int i = (if i < 0 then CHR ''-'' # str_nat (nat (- i)) else str_nat (nat i))"

text \<open>Rounding to the nearest integer, ties to even, as the \<^verbatim>\<open>.0f\<close> format rounds.\<close>

definition round_half_even :: "real \<Rightarrow> int" where
  "round_half_even x =
     (let f = \<lfloor>x\<rfloor>; r = x - of_int f
      in if r < 1 / 2 then f else if 1 / 2 < r then f + 1 else if even f then f else f + 1)"

text \<open>The f-string field \<^verbatim>\<open>{x:.0f}\<close>.\<close>

definition fmt_0f :: "real \<Rightarrow> string" where
  "fmt_0f x = (if x < 0 then CHR ''-'' # str_nat (nat (round_half_even (- x)))
               else str_nat (nat (round_half_even x)))"

text \<open>The f-string field \<^verbatim>\<open>{h:02d}\<close>.\<close>

definition fmt_02d :: "int \<Rightarrow> string" where
  "fmt_02d h = (if 0 \<le> h \<and> h < 10 then CHR ''0'' # str_int h else str_int h)"

section \<open>Data model\<close>

text \<open>
  The \<^verbatim>\<open>user\<close> and \<^verbatim>\<open>login\<close> dictionaries: the keys the engine reads. Both come with
  every key present (a row of the \<^verbatim>\<open>users\<close> table, and \<^verbatim>\<open>login_data\<close> of the
  authentication tab).
\<close>

record auth_data =
  user_id :: string
  device_id :: string
  sim_id :: string
  lat :: real
  lon :: real
  keystroke_speed :: real
  mouse_speed :: real

text \<open>Rows of the intelligence tables: the columns the engine reads or writes.\<close>

record device_intel =
  trust_score :: real
  is_emulator :: bool
  is_rooted :: bool
  suspicious_activity_count :: int

record sim_intel =
  swap_frequency :: int
  clone_detection_score :: real
  dual_sim_detected :: bool

text \<open>A row of \<^verbatim>\<open>fraud_patterns\<close>; its columns are nullable.\<close>

record fraud_pattern =
  fp_device_id :: "string option"
  fp_sim_id :: "string option"
  fp_confidence_score :: "real option"

text \<open>A row of \<^verbatim>\<open>attempts\<close>; the timestamp in seconds.\<close>

record attempt_row =
  at_user_id :: string
  at_status :: string
  at_timestamp :: int

text \<open>
  The SQLite database behind \<^verbatim>\<open>self.conn\<close>. When \<open>db_available\<close> is false every
  cursor operation raises, which each accessor of the engine catches.
\<close>

record database =
  db_available :: bool
  users :: "string \<rightharpoonup> auth_data"
  device_intelligence :: "string \<rightharpoonup> device_intel"
  sim_intelligence :: "string \<rightharpoonup> sim_intel"
  fraud_patterns :: "fraud_pattern list"
  attempts :: "attempt_row list"

text \<open>
  The samples of \<open>[0, 1)\<close> the random generator hands out, one per call site of
  \<^verbatim>\<open>np.random\<close> in the engine (no call site runs twice in one analysis).
\<close>

record draws =
  clone_u :: real
  dual_sim_u :: real
  location_risk_u :: real
  vpn_u :: real
  pattern_u :: real
  rooted_u :: real
  trust_u :: real
  sim_clone_u :: real
  sim_dual_u :: real

text \<open>What one analysis reads from outside: the generator, the wall clock, the database.\<close>

record world =
  rnd :: draws
  clock_hour :: int
  sql_now :: int
  db :: database

text \<open>\<^verbatim>\<open>self.risk_weights\<close>.\<close>

datatype weight_key =
    device_change_unknown | device_change_suspicious | device_change_known
  | sim_swap_multiple | sim_swap_first | sim_clone_detected | dual_sim_detected_w
  | impossible_travel | suspicious_velocity
  | behavioral_bot | behavioral_severe | behavioral_moderate | behavioral_minor
  | timing_suspicious | location_high_risk | emulator_detected | rooted_device
  | vpn_proxy | rapid_attempts | failed_pattern | phishing_indicators

fun risk_weights :: "weight_key \<Rightarrow> int" where
  "risk_weights device_change_unknown = 80"
| "risk_weights device_change_suspicious = 60"
| "risk_weights device_change_known = 35"
| "risk_weights sim_swap_multiple = 90"
| "risk_weights sim_swap_first = 65"
| "risk_weights sim_clone_detected = 95"
| "risk_weights dual_sim_detected_w = 70"
| "risk_weights impossible_travel = 85"
| "risk_weights suspicious_velocity = 55"
| "risk_weights behavioral_bot = 90"
| "risk_weights behavioral_severe = 70"
| "risk_weights behavioral_moderate = 40"
| "risk_weights behavioral_minor = 20"
| "risk_weights timing_suspicious = 45"
| "risk_weights location_high_risk = 60"
| "risk_weights emulator_detected = 95"
| "risk_weights rooted_device = 65"
| "risk_weights vpn_proxy = 40"
| "risk_weights rapid_attempts = 50"
| "risk_weights failed_pattern = 55"
| "risk_weights phishing_indicators = 75"

text \<open>\<^verbatim>\<open>risk += w; alerts.append(msg)\<close> on the pair \<open>(risk, alerts)\<close> of a layer.\<close>

definition add_alert :: "int \<Rightarrow> string \<Rightarrow> int \<times> string list \<Rightarrow> int \<times> string list" where
  "add_alert w msg acc = (fst acc + w, snd acc @ [msg])"

section \<open>Helper methods of the engine\<close>

text \<open>
  \<^verbatim>\<open>_calculate_distance\<close>: the haversine distance, Earth radius 6371 km. Both square
  roots can raise. In exact arithmetic \<^verbatim>\<open>a\<close> never leaves \<open>[0, 1]\<close>; in doubles it rounds
  to 1.0000000000000002 at antipodal points such as (-82, -180) and (82, 0), where its
  exact value is 1, and \<^verbatim>\<open>sqrt(1 - a)\<close> raises \<^verbatim>\<open>ValueError\<close>.
\<close>

definition calculate_distance :: "real \<Rightarrow> real \<Rightarrow> real \<Rightarrow> real \<Rightarrow> py_error + real" where
  "calculate_distance lat1 lon1 lat2 lon2 =
     (let R = 6371;
          dlat = radians (lat2 - lat1);
          dlon = radians (lon2 - lon1);
          a = (sin (dlat / 2))\<^sup>2
                + cos (radians lat1) * cos (radians lat2) * (sin (dlon / 2))\<^sup>2
      in case math_sqrt a of
           Inl e \<Rightarrow> Inl e
         | Inr sa \<Rightarrow>
             (case math_sqrt (1 - a) of
                Inl e \<Rightarrow> Inl e
              | Inr sb \<Rightarrow> Inr (R * (2 * atan2 sa sb))))"

text \<open>\<^verbatim>\<open>_detect_sim_cloning\<close>, \<^verbatim>\<open>_detect_dual_sim\<close>, \<^verbatim>\<open>_detect_bot_behavior\<close>,
  \<^verbatim>\<open>_assess_location_risk\<close>.\<close>

definition detect_sim_cloning :: "draws \<Rightarrow> auth_data \<Rightarrow> auth_data \<Rightarrow> real" where
  "detect_sim_cloning r user login =
     (if sim_id login \<noteq> sim_id user then uniform 0.1 0.9 (clone_u r) else 0)"

definition detect_dual_sim :: "draws \<Rightarrow> string \<Rightarrow> bool" where
  "detect_dual_sim r sid = (dual_sim_u r < 0.15)"

definition detect_bot_behavior :: "auth_data \<Rightarrow> bool" where
  "detect_bot_behavior login =
     (let keystroke = keystroke_speed login; mouse = mouse_speed login
      in keystroke = 100 \<and> mouse = 150)"

definition assess_location_risk :: "draws \<Rightarrow> real \<Rightarrow> real \<Rightarrow> real" where
  "assess_location_risk r la lo = uniform 0 1 (location_risk_u r)"

text \<open>
  Values as Python sees them at \<^verbatim>\<open>float(...)\<close>: a number converts, \<^verbatim>\<open>None\<close> and a
  tuple raise \<^verbatim>\<open>TypeError\<close>.
\<close>

datatype py_value = PyFloat real | PyNone | PyTuple "py_value list"

fun py_float :: "py_value \<Rightarrow> py_error + real" where
  "py_float (PyFloat x) = Inr x"
| "py_float PyNone = Inl TypeError"
| "py_float (PyTuple vs) = Inl TypeError"

text \<open>
  The query of \<^verbatim>\<open>_check_fraud_patterns\<close>: \<^verbatim>\<open>SELECT MAX(confidence_score) FROM
  fraud_patterns WHERE device_id=? OR sim_id=?\<close>, then \<^verbatim>\<open>fetchone()\<close>. An aggregate
  always yields one row, a 1-tuple holding the maximum of the non-NULL values or NULL.
\<close>

definition max_confidence :: "real list \<Rightarrow> py_value" where
  "max_confidence cs = (case cs of [] \<Rightarrow> PyNone | c # cs' \<Rightarrow> PyFloat (fold max cs' c))"

definition select_max_confidence :: "database \<Rightarrow> auth_data \<Rightarrow> py_error + py_value" where
  "select_max_confidence d login =
     (if \<not> db_available d then Inl OperationalError
      else Inr (PyTuple [max_confidence
             (List.map_filter fp_confidence_score
                (filter (\<lambda>p. fp_device_id p = Some (device_id login)
                              \<or> fp_sim_id p = Some (sim_id login))
                   (fraud_patterns d)))]))"

text \<open>
  \<^verbatim>\<open>_check_fraud_patterns\<close>. The whole body is in a \<^verbatim>\<open>try\<close> whose handler returns 0.0.
  \<^verbatim>\<open>float(result)\<close> is applied to the fetched row, not to \<^verbatim>\<open>result[0]\<close>.
\<close>

definition check_fraud_patterns :: "draws \<Rightarrow> database \<Rightarrow> auth_data \<Rightarrow> real option" where
  "check_fraud_patterns r d login =
     (case select_max_confidence d login of
        Inl e \<Rightarrow> Some 0
      | Inr result \<Rightarrow>
          (case result of
             PyTuple (v # vs) \<Rightarrow>
               (if v \<noteq> PyNone
                then (case py_float result of Inl e \<Rightarrow> Some 0 | Inr x \<Rightarrow> Some x)
                else Some (uniform 0.1 0.4 (pattern_u r)))
           | _ \<Rightarrow> Some (uniform 0.1 0.4 (pattern_u r))))"

text \<open>\<^verbatim>\<open>_get_device_intelligence\<close>: the row of the device, \<^verbatim>\<open>None\<close> when there is none
  or the query raises.\<close>

definition get_device_intelligence :: "database \<Rightarrow> string \<Rightarrow> device_intel option" where
  "get_device_intelligence d did =
     (if \<not> db_available d then None else device_intelligence d did)"

text \<open>
  \<^verbatim>\<open>_update_device_intelligence\<close>: \<^verbatim>\<open>INSERT OR REPLACE\<close> of the device's row; the columns
  it does not name take their defaults. A failure is swallowed.
\<close>

definition update_device_intelligence :: "draws \<Rightarrow> database \<Rightarrow> string \<Rightarrow> string \<Rightarrow> database" where
  "update_device_intelligence r d did uid =
     (if \<not> db_available d then d
      else
        let emu = startswith did ''emulator_'';
            rooted = (startswith did ''bot_'' \<or> rooted_u r < 0.05);
            trust = (if emu \<or> rooted then 25 else uniform 70 95 (trust_u r))
        in d\<lparr>device_intelligence := (device_intelligence d)(did \<mapsto>
               \<lparr>trust_score = trust, is_emulator = emu, is_rooted = rooted,
                suspicious_activity_count = 0\<rparr>)\<rparr>)"

text \<open>
  \<^verbatim>\<open>_get_sim_intelligence\<close>: the \<^verbatim>\<open>sim_intelligence\<close> row joined to the stored user's
  SIM, \<^verbatim>\<open>None\<close> when there is none or the query raises.
\<close>

definition get_sim_intelligence :: "database \<Rightarrow> string \<Rightarrow> sim_intel option" where
  "get_sim_intelligence d uid =
     (if \<not> db_available d then None
      else case users d uid of None \<Rightarrow> None | Some u \<Rightarrow> sim_intelligence d (sim_id u))"

text \<open>\<^verbatim>\<open>_update_sim_intelligence\<close>.\<close>

definition update_sim_intelligence :: "draws \<Rightarrow> database \<Rightarrow> string \<Rightarrow> string \<Rightarrow> database" where
  "update_sim_intelligence r d sid uid =
     (if \<not> db_available d then d
      else
        let swap_freq = (case sim_intelligence d sid of
                           Some row \<Rightarrow> swap_frequency row + 1 | None \<Rightarrow> 1);
            clone_score = (if swap_freq > 1 then uniform 0.1 0.8 (sim_clone_u r) else 0.1);
            dual_sim = (sim_dual_u r < 0.12)
        in d\<lparr>sim_intelligence := (sim_intelligence d)(sid \<mapsto>
               \<lparr>swap_frequency = swap_freq, clone_detection_score = clone_score,
                dual_sim_detected = dual_sim\<rparr>)\<rparr>)"

text \<open>
  \<^verbatim>\<open>_get_recent_attempts\<close>: the user's BLOCKED or CHALLENGE attempts of the last
  \<open>minutes\<close> minutes; the empty list when the query raises.
\<close>

definition get_recent_attempts :: "world \<Rightarrow> database \<Rightarrow> string \<Rightarrow> int \<Rightarrow> attempt_row list" where
  "get_recent_attempts w d uid minutes =
     (if \<not> db_available d then []
      else filter (\<lambda>a. at_user_id a = uid
                        \<and> (at_status a = ''BLOCKED'' \<or> at_status a = ''CHALLENGE'')
                        \<and> at_timestamp a > sql_now w - minutes * 60)
             (attempts d))"

section \<open>The seven analysis layers\<close>

text \<open>\<^verbatim>\<open>_analyze_device_intelligence\<close>.\<close>

definition analyze_device_intelligence ::
  "draws \<Rightarrow> database \<Rightarrow> auth_data \<Rightarrow> auth_data \<Rightarrow> (int \<times> string list) \<times> database" where
  "analyze_device_intelligence r d user login =
     (if device_id login \<noteq> device_id user then
        let device_intel = get_device_intelligence d (device_id login);
            res =
              (case device_intel of
                 Some di \<Rightarrow>
                   if is_emulator di then
                     add_alert (risk_weights emulator_detected)
                       ''CRITICAL: Mobile emulator detected'' (0, [])
                   else if is_rooted di then
                     add_alert (risk_weights rooted_device)
                       ''WARNING: Rooted/jailbroken device detected'' (0, [])
                   else if suspicious_activity_count di > 3 then
                     add_alert (risk_weights device_change_suspicious)
                       ''WARNING: Device with suspicious history'' (0, [])
                   else if trust_score di < 30 then
                     add_alert (risk_weights device_change_suspicious)
                       ''WARNING: Untrusted device'' (0, [])
                   else
                     add_alert (risk_weights device_change_known)
                       ''INFO: Known device change'' (0, [])
               | None \<Rightarrow>
                   add_alert (risk_weights device_change_unknown)
                     ''CRITICAL: Unknown device detected'' (0, []))
        in (res, update_device_intelligence r d (device_id login) (user_id user))
      else ((0, []), d))"

text \<open>\<^verbatim>\<open>_analyze_sim_intelligence\<close>: three independent checks, in this order.\<close>

definition analyze_sim_intelligence ::
  "draws \<Rightarrow> database \<Rightarrow> auth_data \<Rightarrow> auth_data \<Rightarrow> (int \<times> string list) \<times> database" where
  "analyze_sim_intelligence r d user login =
     (if sim_id login \<noteq> sim_id user then
        let sim_intel = get_sim_intelligence d (user_id user);
            clone_score = detect_sim_cloning r user login;
            acc1 = (if clone_score > 0.8
                    then add_alert (risk_weights sim_clone_detected)
                           ''CRITICAL: SIM cloning detected'' (0, [])
                    else (0, []));
            acc2 = (if detect_dual_sim r (sim_id login)
                    then add_alert (risk_weights dual_sim_detected_w)
                           ''WARNING: Dual SIM usage detected'' acc1
                    else acc1);
            acc3 =
              (case sim_intel of
                 Some si \<Rightarrow>
                   (let swap_freq = swap_frequency si
                    in if swap_freq > 2 then
                         add_alert (risk_weights sim_swap_multiple)
                           (''CRITICAL: Multiple SIM swaps ('' @ str_int swap_freq @ '' times)'') acc2
                       else if swap_freq > 0 then
                         add_alert (risk_weights sim_swap_first)
                           ''WARNING: Previous SIM swap detected'' acc2
                       else acc2)
               | None \<Rightarrow>
                   add_alert (risk_weights sim_swap_first) ''WARNING: SIM card changed'' acc2)
        in (acc3, update_sim_intelligence r d (sim_id login) (user_id user))
      else ((0, []), d))"

text \<open>\<^verbatim>\<open>_analyze_geospatial_intelligence\<close>.\<close>

definition analyze_geospatial_intelligence ::
  "draws \<Rightarrow> auth_data \<Rightarrow> auth_data \<Rightarrow> py_error + (int \<times> string list)" where
  "analyze_geospatial_intelligence r user login =
     (case calculate_distance (lat user) (lon user) (lat login) (lon login) of
        Inl e \<Rightarrow> Inl e
      | Inr distance \<Rightarrow>
          (let acc1 =
                 (if distance > 10000 then
                    add_alert (risk_weights impossible_travel)
                      (''CRITICAL: Impossible travel '' @ fmt_0f distance @ ''km'') (0, [])
                  else if distance > 5000 then
                    add_alert (risk_weights impossible_travel)
                      (''CRITICAL: Impossible travel '' @ fmt_0f distance @ ''km'') (0, [])
                  else if distance > 2000 then
                    add_alert (risk_weights suspicious_velocity)
                      (''WARNING: High-speed travel '' @ fmt_0f distance @ ''km'') (0, [])
                  else if distance > 500 then
                    add_alert 30
                      (''INFO: New location '' @ fmt_0f distance @ ''km away'') (0, [])
                  else (0, []));
               location_risk = assess_location_risk r (lat login) (lon login);
               acc2 = (if location_risk > 0.7
                       then add_alert (risk_weights location_high_risk)
                              ''WARNING: High-risk geographic area'' acc1
                       else acc1)
           in Inr acc2))"

text \<open>\<^verbatim>\<open>_analyze_behavioral_biometrics\<close>.\<close>

definition analyze_behavioral_biometrics :: "auth_data \<Rightarrow> auth_data \<Rightarrow> int \<times> string list" where
  "analyze_behavioral_biometrics user login =
     (if detect_bot_behavior login then
        add_alert (risk_weights behavioral_bot)
          ''CRITICAL: Automated/bot behavior detected'' (0, [])
      else
        let keystroke_diff = \<bar>keystroke_speed user - keystroke_speed login\<bar>;
            mouse_diff = \<bar>mouse_speed user - mouse_speed login\<bar>;
            total_diff = keystroke_diff + mouse_diff
        in if total_diff > 150 then
             add_alert (risk_weights behavioral_severe)
               ''CRITICAL: Severe behavioral anomaly'' (0, [])
           else if total_diff > 100 then
             add_alert (risk_weights behavioral_moderate)
               ''WARNING: Moderate behavioral change'' (0, [])
           else if total_diff > 50 then
             add_alert (risk_weights behavioral_minor)
               ''INFO: Minor behavioral variation'' (0, [])
           else (0, []))"

text \<open>\<^verbatim>\<open>_analyze_temporal_patterns\<close>.\<close>

definition analyze_temporal_patterns ::
  "world \<Rightarrow> database \<Rightarrow> auth_data \<Rightarrow> auth_data \<Rightarrow> int \<times> string list" where
  "analyze_temporal_patterns w d user login =
     (let hour = clock_hour w;
          acc1 = (if hour < 5 \<or> hour > 23
                  then add_alert (risk_weights timing_suspicious)
                         (''WARNING: Unusual login time ('' @ fmt_02d hour @ '':xx)'') (0, [])
                  else (0, []));
          recent_attempts = get_recent_attempts w d (user_id user) 10
      in if int (length recent_attempts) > 5
         then add_alert (risk_weights rapid_attempts) ''WARNING: Multiple rapid attempts'' acc1
         else acc1)"

text \<open>\<^verbatim>\<open>_analyze_network_intelligence\<close>.\<close>

definition analyze_network_intelligence ::
  "draws \<Rightarrow> auth_data \<Rightarrow> auth_data \<Rightarrow> int \<times> string list" where
  "analyze_network_intelligence r user login =
     (if vpn_u r < 0.12
      then add_alert (risk_weights vpn_proxy) ''WARNING: VPN/Proxy usage detected'' (0, [])
      else (0, []))"

text \<open>\<^verbatim>\<open>_analyze_fraud_patterns\<close>.\<close>

definition analyze_fraud_patterns ::
  "draws \<Rightarrow> database \<Rightarrow> auth_data \<Rightarrow> auth_data \<Rightarrow> int \<times> string list" where
  "analyze_fraud_patterns r d user login =
     (let fraud_confidence = check_fraud_patterns r d login
      in case fraud_confidence of
           None \<Rightarrow> (0, [])
         | Some fc \<Rightarrow>
             if fc > 0.8 then
               add_alert (risk_weights phishing_indicators)
                 ''CRITICAL: Matches known fraud pattern'' (0, [])
             else if fc > 0.6 then
               add_alert 50 ''WARNING: Similar to fraud pattern'' (0, [])
             else (0, []))"

section \<open>Aggregation and decision\<close>

text \<open>\<^verbatim>\<open>_calculate_ml_confidence\<close>.\<close>

definition calculate_ml_confidence :: "(string \<times> int) list \<Rightarrow> string list \<Rightarrow> real" where
  "calculate_ml_confidence breakdown alerts =
     (let critical_count = int (length (filter (contains ''CRITICAL'') alerts));
          warning_count = int (length (filter (contains ''WARNING'') alerts))
      in if critical_count \<ge> 2 then 0.95
         else if critical_count \<ge> 1 then 0.88
         else if warning_count \<ge> 2 then 0.82
         else 0.92)"

text \<open>
  \<^verbatim>\<open>comprehensive_risk_analysis\<close>: the seven layers in order, the database threaded through
  the two layers that write it. The result is the tuple the method returns, with the
  database it leaves behind.
\<close>

type_synonym analysis = "int \<times> string list \<times> (string \<times> int) list \<times> real"

definition comprehensive_risk_analysis ::
  "world \<Rightarrow> auth_data \<Rightarrow> auth_data \<Rightarrow> py_error + (analysis \<times> database)" where
  "comprehensive_risk_analysis w user login =
     (let r = rnd w;
          (device, d1) = analyze_device_intelligence r (db w) user login;
          (sim, d2) = analyze_sim_intelligence r d1 user login
      in case analyze_geospatial_intelligence r user login of
           Inl e \<Rightarrow> Inl e
         | Inr geo \<Rightarrow>
             (let behavior = analyze_behavioral_biometrics user login;
                  temporal = analyze_temporal_patterns w d2 user login;
                  network = analyze_network_intelligence r user login;
                  pattern = analyze_fraud_patterns r d2 user login;
                  total_risk = fst device + fst sim + fst geo + fst behavior
                                 + fst temporal + fst network + fst pattern;
                  alerts = snd device @ snd sim @ snd geo @ snd behavior
                             @ snd temporal @ snd network @ snd pattern;
                  risk_breakdown =
                    [(''device_analysis'', fst device),
                     (''sim_analysis'', fst sim),
                     (''geospatial_analysis'', fst geo),
                     (''behavioral_analysis'', fst behavior),
                     (''temporal_analysis'', fst temporal),
                     (''network_analysis'', fst network),
                     (''pattern_analysis'', fst pattern)];
                  ml_confidence = calculate_ml_confidence risk_breakdown alerts
              in Inr ((min total_risk 100, alerts, risk_breakdown, ml_confidence), d2)))"

text \<open>
  The decision logic of the authentication tab, on the score and the alerts the
  analysis returned; \<open>alert_type\<close> is the severity the tab displays for an alert.
\<close>

datatype status = APPROVED | CHALLENGE | BLOCKED

definition decision_status :: "int \<Rightarrow> string list \<Rightarrow> status" where
  "decision_status risk_score alerts =
     (let critical_alerts = int (length (filter (contains ''CRITICAL'') alerts))
      in if risk_score \<ge> 80 \<or> critical_alerts \<ge> 2 then BLOCKED
         else if risk_score \<ge> 50 \<or> critical_alerts \<ge> 1 then CHALLENGE
         else APPROVED)"

definition alert_type :: "string \<Rightarrow> string" where
  "alert_type alert =
     (if contains ''CRITICAL'' alert then ''CRITICAL''
      else if contains ''WARNING'' alert then ''WARNING''
      else ''INFO'')"

text \<open>The authentication of one attempt: the analysis, then the decision.\<close>

definition authenticate ::
  "world \<Rightarrow> auth_data \<Rightarrow> auth_data \<Rightarrow> py_error + (status \<times> analysis)" where
  "authenticate w user login =
     (case comprehensive_risk_analysis w user login of
        Inl e \<Rightarrow> Inl e
      | Inr (res, d') \<Rightarrow> Inr (decision_status (fst res) (fst (snd res)), res))"

section \<open>Quantities the statements below refer to\<close>

text \<open>
  The tuple \<^verbatim>\<open>comprehensive_risk_analysis\<close> returns, as a function of the results of its
  seven layers; the lemmas below name it.
\<close>

definition combine_layers ::
  "int \<times> string list \<Rightarrow> int \<times> string list \<Rightarrow> int \<times> string list \<Rightarrow> int \<times> string list
   \<Rightarrow> int \<times> string list \<Rightarrow> int \<times> string list \<Rightarrow> int \<times> string list \<Rightarrow> analysis" where
  "combine_layers device sim geo behavior temporal network pattern =
     (let total_risk = fst device + fst sim + fst geo + fst behavior
                         + fst temporal + fst network + fst pattern;
          alerts = snd device @ snd sim @ snd geo @ snd behavior
                     @ snd temporal @ snd network @ snd pattern;
          risk_breakdown =
            [(''device_analysis'', fst device),
             (''sim_analysis'', fst sim),
             (''geospatial_analysis'', fst geo),
             (''behavioral_analysis'', fst behavior),
             (''temporal_analysis'', fst temporal),
             (''network_analysis'', fst network),
             (''pattern_analysis'', fst pattern)]
      in (min total_risk 100, alerts, risk_breakdown,
          calculate_ml_confidence risk_breakdown alerts))"

text \<open>
  The four threshold events through which the generator's samples reach the score:
  SIM cloning detected, dual SIM detected, high-risk area, VPN or proxy detected.
\<close>

definition draw_events :: "draws \<Rightarrow> bool \<times> bool \<times> bool \<times> bool" where
  "draw_events r =
     (uniform 0.1 0.9 (clone_u r) > 0.8, dual_sim_u r < 0.15,
      uniform 0 1 (location_risk_u r) > 0.7, vpn_u r < 0.12)"

text \<open>Concrete inputs: samples at which no random rule fires, an empty database,
  noon, and the profile of the specification's scenarios.\<close>

definition quiet_draws :: draws where
  "quiet_draws =
     \<lparr>clone_u = 1 / 2, dual_sim_u = 1 / 2, location_risk_u = 1 / 2, vpn_u = 1 / 2,
      pattern_u = 1 / 2, rooted_u = 1 / 2, trust_u = 1 / 2, sim_clone_u = 1 / 2,
      sim_dual_u = 1 / 2\<rparr>"

definition empty_db :: database where
  "empty_db =
     \<lparr>db_available = True, users = Map.empty, device_intelligence = Map.empty,
      sim_intelligence = Map.empty, fraud_patterns = [], attempts = []\<rparr>"

definition noon_world :: world where
  "noon_world = \<lparr>rnd = quiet_draws, clock_hour = 12, sql_now = 0, db = empty_db\<rparr>"

definition demo_user :: auth_data where
  "demo_user =
     \<lparr>user_id = ''U1'', device_id = ''D1'', sim_id = ''S1'', lat = 12.9716, lon = 77.5946,
      keystroke_speed = 170, mouse_speed = 200\<rparr>"

text \<open>Databases: one that knows the device \<^verbatim>\<open>emulator_7\<close> as an emulator that is also
  rooted, one whose stored user has a SIM record with no swap so far, and one holding
  a fraud pattern of confidence 0.9 for the device \<^verbatim>\<open>D1\<close>.\<close>

definition emulator_db :: database where
  "emulator_db =
     empty_db\<lparr>device_intelligence :=
       [''emulator_7'' \<mapsto> \<lparr>trust_score = 25, is_emulator = True, is_rooted = True,
                          suspicious_activity_count = 0\<rparr>]\<rparr>"

definition no_swap_db :: database where
  "no_swap_db =
     empty_db\<lparr>users := [''U1'' \<mapsto> demo_user],
              sim_intelligence :=
                [''S1'' \<mapsto> \<lparr>swap_frequency = 0, clone_detection_score = 0.1,
                            dual_sim_detected = False\<rparr>]\<rparr>"

definition pattern_db :: database where
  "pattern_db =
     empty_db\<lparr>fraud_patterns :=
       [\<lparr>fp_device_id = Some ''D1'', fp_sim_id = None, fp_confidence_score = Some 0.9\<rparr>]\<rparr>"

text \<open>A profile enrolled on the equator at longitude 0.\<close>

definition equator_user :: auth_data where
  "equator_user =
     \<lparr>user_id = ''U2'', device_id = ''D1'', sim_id = ''S1'', lat = 0, lon = 0,
      keystroke_speed = 170, mouse_speed = 200\<rparr>"

section \<open>The distance\<close>

text \<open>
  The distance is evaluated at pairs of points away from the antipode only: a point
  and itself, and two points of the equator. Nothing here says that the distance
  returns for every pair of points.
\<close>

lemma atan2_sin_cos:
  assumes "0 \<le> t" "t \<le> pi / 2"
  shows "atan2 (sin t) (cos t) = t"
proof (cases "t = pi / 2")
  case True
  show ?thesis unfolding True by (simp add: atan2_def)
next
  case False
  with assms have lt: "t < pi / 2" by simp
  have "0 < cos t" using assms lt by (intro cos_gt_zero_pi) simp_all
  moreover have "arctan (sin t / cos t) = t"
    using arctan_tan[of t] assms lt by (simp add: tan_def)
  ultimately show ?thesis by (simp add: atan2_def)
qed

lemma calculate_distance_same: "calculate_distance la lo la lo = Inr 0"
  by (simp add: calculate_distance_def radians_def math_sqrt_def atan2_def)

text \<open>Along the equator the distance is the arc: 6371 km times the longitude
  difference in radians.\<close>

lemma calculate_distance_equator:
  assumes "0 \<le> x" "x \<le> 180"
  shows "calculate_distance 0 0 0 x = Inr (6371 * radians x)"
proof -
  define t where "t = radians x / 2"
  have t: "0 \<le> t" "t \<le> pi / 2" using assms by (simp_all add: t_def radians_def)
  have s: "0 \<le> sin t" using t by (intro sin_ge_zero) simp_all
  have c: "0 \<le> cos t" using t by (intro cos_ge_zero) simp_all
  have sa: "math_sqrt ((sin t)\<^sup>2) = Inr (sin t)"
    using s by (simp add: math_sqrt_def)
  have "1 - (sin t)\<^sup>2 = (cos t)\<^sup>2" by (simp add: cos_squared_eq)
  then have sb: "math_sqrt (1 - (sin t)\<^sup>2) = Inr (cos t)"
    using c by (simp add: math_sqrt_def)
  have a: "(sin (radians (0 - 0) / 2))\<^sup>2
             + cos (radians 0) * cos (radians 0) * (sin (radians (x - 0) / 2))\<^sup>2
           = (sin t)\<^sup>2"
    by (simp add: t_def radians_def)
  have "calculate_distance 0 0 0 x =
          (case math_sqrt ((sin t)\<^sup>2) of
             Inl e \<Rightarrow> Inl e
           | Inr sa \<Rightarrow>
               (case math_sqrt (1 - (sin t)\<^sup>2) of
                  Inl e \<Rightarrow> Inl e
                | Inr sb \<Rightarrow> Inr (6371 * (2 * atan2 sa sb))))"
    unfolding calculate_distance_def Let_def a by (rule refl)
  also have "\<dots> = Inr (6371 * (2 * t))"
    by (simp only: sa sb sum.case atan2_sin_cos[OF t])
  finally show ?thesis by (simp add: t_def)
qed

lemma equator_nine_degrees:
  "calculate_distance 0 0 0 9 = Inr (6371 * radians 9)"
  "500 < 6371 * radians 9" "6371 * radians 9 \<le> 2000"
proof -
  show "calculate_distance 0 0 0 9 = Inr (6371 * radians 9)"
    by (rule calculate_distance_equator) simp_all
  show "500 < 6371 * radians 9" using pi_ge_two by (simp add: radians_def)
  show "6371 * radians 9 \<le> 2000" using pi_less_4 by (simp add: radians_def)
qed

text \<open>
  At the antipodal pair (-82, -180), (82, 0) the exact value of \<^verbatim>\<open>a\<close> is 1, the edge
  of the domain of \<^verbatim>\<open>sqrt(1 - a)\<close>; any rounding upwards, as doubles give there, leaves it.
\<close>

lemma antipodal_a_on_domain_edge:
  "(sin (radians (82 - (- 82)) / 2))\<^sup>2
     + cos (radians (- 82)) * cos (radians 82) * (sin (radians (0 - (- 180)) / 2))\<^sup>2 = 1"
  "0 < eps \<Longrightarrow> math_sqrt (1 - (1 + eps)) = Inl ValueError"
proof -
  have "radians (82 - (- 82)) / 2 = radians 82" "radians (0 - (- 180)) / 2 = pi / 2"
    "radians (- 82) = - radians 82"
    by (simp_all add: radians_def)
  then show "(sin (radians (82 - (- 82)) / 2))\<^sup>2
     + cos (radians (- 82)) * cos (radians 82) * (sin (radians (0 - (- 180)) / 2))\<^sup>2 = 1"
    by (simp add: power2_eq_square[symmetric])
  show "0 < eps \<Longrightarrow> math_sqrt (1 - (1 + eps)) = Inl ValueError"
    by (simp add: math_sqrt_def)
qed

section \<open>Alert severities\<close>

text \<open>Substrings, and the characters a formatted number can hold.\<close>

lemma startswith_subset: "startswith s p \<Longrightarrow> set p \<subseteq> set s"
  by (induction s p rule: startswith.induct) auto

lemma startswith_append: "startswith (p @ s) p"
proof (induction p)
  case Nil
  then show ?case by simp
next
  case (Cons a p)
  then show ?case by simp
qed

lemma contains_subset: "contains needle s \<Longrightarrow> set needle \<subseteq> set s"
proof (induction s)
  case Nil
  then show ?case by simp
next
  case (Cons c cs)
  from Cons.prems have "startswith (c # cs) needle \<or> contains needle cs" by simp
  then show ?case
  proof
    assume "startswith (c # cs) needle"
    then show ?thesis by (rule startswith_subset)
  next
    assume "contains needle cs"
    then have "set needle \<subseteq> set cs" by (rule Cons.IH)
    then show ?thesis by auto
  qed
qed

lemma contains_prefix: "contains p (p @ s)"
proof (cases "p @ s")
  case Nil
  then show ?thesis by simp
next
  case (Cons c cs)
  have "startswith (p @ s) p" by (rule startswith_append)
  then show ?thesis unfolding Cons by simp
qed

lemma not_contains_char: "c \<in> set needle \<Longrightarrow> c \<notin> set s \<Longrightarrow> \<not> contains needle s"
  using contains_subset by blast


lemma digit_char_values:
  assumes "d < 10"
  shows "digit_char d \<in> set ''0123456789''"
  unfolding digit_char_def using assms by (intro nth_mem) simp

lemma str_nat_chars:
  assumes "c \<notin> set ''0123456789''"
  shows "c \<notin> set (str_nat n)"
proof (induction n rule: str_nat.induct)
  case (1 n)
  show ?case
  proof (cases "n < 10")
    case True
    have "digit_char n \<in> set ''0123456789''" using True by (rule digit_char_values)
    then have "digit_char n \<noteq> c" using assms by metis
    moreover have "str_nat n = [digit_char n]" using True by (subst str_nat.simps) simp
    ultimately show ?thesis by simp
  next
    case False
    have "n mod 10 < 10" by simp
    then have "digit_char (n mod 10) \<in> set ''0123456789''" by (rule digit_char_values)
    then have "digit_char (n mod 10) \<noteq> c" using assms by metis
    moreover have "str_nat n = str_nat (n div 10) @ [digit_char (n mod 10)]"
      using False by (subst str_nat.simps) simp
    moreover have "c \<notin> set (str_nat (n div 10))" using False by (rule 1)
    ultimately show ?thesis by simp
  qed
qed

lemma fmt_0f_chars:
  assumes "c \<notin> set ''0123456789''" "c \<noteq> CHR ''-''"
  shows "c \<notin> set (fmt_0f x)"
  using assms(2) str_nat_chars[OF assms(1)] by (simp add: fmt_0f_def)

lemma fmt_0f_no_C: "CHR ''C'' \<notin> set (fmt_0f x)"
  by (rule fmt_0f_chars) simp_all

lemma fmt_0f_no_W: "CHR ''W'' \<notin> set (fmt_0f x)"
  by (rule fmt_0f_chars) simp_all

lemma alert_type_critical: "alert_type a = ''CRITICAL'' \<longleftrightarrow> contains ''CRITICAL'' a"
  by (simp add: alert_type_def)

lemma alert_type_warning:
  "alert_type a = ''WARNING'' \<longleftrightarrow> \<not> contains ''CRITICAL'' a \<and> contains ''WARNING'' a"
  by (simp add: alert_type_def)

lemma alert_type_travel_critical:
  "alert_type (''CRITICAL: Impossible travel '' @ fmt_0f x @ ''km'') = ''CRITICAL''"
proof -
  have "contains ''CRITICAL'' (''CRITICAL'' @ ('': Impossible travel '' @ fmt_0f x @ ''km''))"
    by (rule contains_prefix)
  then show ?thesis by (simp add: alert_type_def)
qed

lemma alert_type_travel_warning:
  "alert_type (''WARNING: High-speed travel '' @ fmt_0f x @ ''km'') = ''WARNING''"
proof -
  have "contains ''WARNING'' (''WARNING'' @ ('': High-speed travel '' @ fmt_0f x @ ''km''))"
    by (rule contains_prefix)
  moreover have "\<not> contains ''CRITICAL'' (''WARNING: High-speed travel '' @ fmt_0f x @ ''km'')"
    by (rule not_contains_char[of "CHR ''C''"]) (simp_all add: fmt_0f_no_C)
  ultimately show ?thesis by (simp add: alert_type_def)
qed

lemma alert_type_travel_info:
  "alert_type (''INFO: New location '' @ fmt_0f x @ ''km away'') = ''INFO''"
proof -
  have "\<not> contains ''CRITICAL'' (''INFO: New location '' @ fmt_0f x @ ''km away'')"
    by (rule not_contains_char[of "CHR ''C''"]) (simp_all add: fmt_0f_no_C)
  moreover have "\<not> contains ''WARNING'' (''INFO: New location '' @ fmt_0f x @ ''km away'')"
    by (rule not_contains_char[of "CHR ''W''"]) (simp_all add: fmt_0f_no_W)
  ultimately show ?thesis by (simp add: alert_type_def)
qed

lemma alert_type_fixed:
  "alert_type ''CRITICAL: Mobile emulator detected'' = ''CRITICAL''"
  "alert_type ''WARNING: Rooted/jailbroken device detected'' = ''WARNING''"
  "alert_type ''WARNING: Device with suspicious history'' = ''WARNING''"
  "alert_type ''WARNING: Untrusted device'' = ''WARNING''"
  "alert_type ''INFO: Known device change'' = ''INFO''"
  "alert_type ''CRITICAL: Unknown device detected'' = ''CRITICAL''"
  "alert_type ''CRITICAL: SIM cloning detected'' = ''CRITICAL''"
  "alert_type ''WARNING: Dual SIM usage detected'' = ''WARNING''"
  "alert_type ''WARNING: Previous SIM swap detected'' = ''WARNING''"
  "alert_type ''WARNING: SIM card changed'' = ''WARNING''"
  "alert_type ''WARNING: High-risk geographic area'' = ''WARNING''"
  "alert_type ''CRITICAL: Matches known fraud pattern'' = ''CRITICAL''"
  "alert_type ''WARNING: Similar to fraud pattern'' = ''WARNING''"
  by (simp_all add: alert_type_def)

text \<open>
  Claim C1. For any score and alert list the analysis may return, the status is
  BLOCKED if the score is at least 80 or at least two alerts are CRITICAL; otherwise
  CHALLENGE if the score is at least 50 or at least one alert is CRITICAL; otherwise
  APPROVED.
\<close>

theorem decision_status_policy:
  "decision_status total_score alerts =
     (if total_score \<ge> 80 \<or> length (filter (\<lambda>a. alert_type a = ''CRITICAL'') alerts) \<ge> 2
      then BLOCKED
      else if total_score \<ge> 50 \<or> length (filter (\<lambda>a. alert_type a = ''CRITICAL'') alerts) \<ge> 1
      then CHALLENGE
      else APPROVED)"
  by (simp add: decision_status_def Let_def alert_type_critical)

theorem decision_status_policy_witness:
  "decision_status 85 [''CRITICAL: Impossible travel 13000km''] = BLOCKED
   \<and> decision_status 70 [''CRITICAL: Severe behavioral anomaly''] = CHALLENGE
   \<and> decision_status 20 [''INFO: Minor behavioral variation''] = APPROVED
   \<and> decision_status 0 [] = APPROVED"
  using decision_status_policy[of 85 "[''CRITICAL: Impossible travel 13000km'']"]
    decision_status_policy[of 70 "[''CRITICAL: Severe behavioral anomaly'']"]
    decision_status_policy[of 20 "[''INFO: Minor behavioral variation'']"]
    decision_status_policy[of 0 "[]"]
  by (simp add: alert_type_def)

section \<open>The device layer\<close>

lemma device_layer_known:
  assumes "device_id login \<noteq> device_id user"
    and "get_device_intelligence d (device_id login) = Some di"
  shows "fst (analyze_device_intelligence r d user login) =
     (if is_emulator di then (95, [''CRITICAL: Mobile emulator detected''])
      else if is_rooted di then (65, [''WARNING: Rooted/jailbroken device detected''])
      else if suspicious_activity_count di > 3 then (60, [''WARNING: Device with suspicious history''])
      else if trust_score di < 30 then (60, [''WARNING: Untrusted device''])
      else (35, [''INFO: Known device change'']))"
  using assms by (simp add: analyze_device_intelligence_def Let_def add_alert_def)

lemma device_layer_unknown:
  assumes "device_id login \<noteq> device_id user"
    and "get_device_intelligence d (device_id login) = None"
  shows "fst (analyze_device_intelligence r d user login) = (80, [''CRITICAL: Unknown device detected''])"
  using assms by (simp add: analyze_device_intelligence_def Let_def add_alert_def)

lemma device_layer_same:
  assumes "device_id login = device_id user"
  shows "analyze_device_intelligence r d user login = ((0, []), d)"
  using assms by (simp add: analyze_device_intelligence_def)

lemma device_layer_length: "length (snd (fst (analyze_device_intelligence r d user login))) \<le> 1"
proof (cases "device_id login = device_id user")
  case True
  then show ?thesis by (simp add: device_layer_same)
next
  case False
  show ?thesis
  proof (cases "get_device_intelligence d (device_id login)")
    case None
    then show ?thesis using False by (simp add: device_layer_unknown)
  next
    case (Some di)
    then show ?thesis using False by (simp add: device_layer_known)
  qed
qed

text \<open>
  Claim C10. The device layer emits at most one alert, with one score delta. When the
  device differs and the device has an intelligence record, exactly one rule fires,
  the first that applies of: emulator (95, CRITICAL), rooted (65, WARNING),
  suspicious history or low trust (60, WARNING), known change (35, INFO). An
  emulator that is also rooted contributes 95 alone.
\<close>

theorem device_layer_single_rule:
  "length (snd (fst (analyze_device_intelligence r d user login))) \<le> 1
   \<and> (device_id login \<noteq> device_id user
        \<and> get_device_intelligence d (device_id login) = Some di
      \<longrightarrow> (\<exists>msg. fst (analyze_device_intelligence r d user login)
                  = (if is_emulator di then 95
                     else if is_rooted di then 65
                     else if suspicious_activity_count di > 3 \<or> trust_score di < 30 then 60
                     else 35, [msg])
               \<and> alert_type msg
                  = (if is_emulator di then ''CRITICAL''
                     else if is_rooted di then ''WARNING''
                     else if suspicious_activity_count di > 3 \<or> trust_score di < 30
                     then ''WARNING''
                     else ''INFO'')))"
proof (intro conjI impI)
  show "length (snd (fst (analyze_device_intelligence r d user login))) \<le> 1"
    by (rule device_layer_length)
next
  assume h: "device_id login \<noteq> device_id user
        \<and> get_device_intelligence d (device_id login) = Some di"
  then have eq: "fst (analyze_device_intelligence r d user login) =
     (if is_emulator di then (95, [''CRITICAL: Mobile emulator detected''])
      else if is_rooted di then (65, [''WARNING: Rooted/jailbroken device detected''])
      else if suspicious_activity_count di > 3 then (60, [''WARNING: Device with suspicious history''])
      else if trust_score di < 30 then (60, [''WARNING: Untrusted device''])
      else (35, [''INFO: Known device change'']))"
    by (simp add: device_layer_known)
  show "\<exists>msg. fst (analyze_device_intelligence r d user login)
                  = (if is_emulator di then 95
                     else if is_rooted di then 65
                     else if suspicious_activity_count di > 3 \<or> trust_score di < 30 then 60
                     else 35, [msg])
               \<and> alert_type msg
                  = (if is_emulator di then ''CRITICAL''
                     else if is_rooted di then ''WARNING''
                     else if suspicious_activity_count di > 3 \<or> trust_score di < 30
                     then ''WARNING''
                     else ''INFO'')"
    unfolding eq by (simp add: alert_type_fixed)
qed

theorem device_layer_single_rule_witness:
  "device_id (demo_user\<lparr>device_id := ''emulator_7''\<rparr>) \<noteq> device_id demo_user
   \<and> get_device_intelligence emulator_db ''emulator_7''
     = Some \<lparr>trust_score = 25, is_emulator = True, is_rooted = True,
             suspicious_activity_count = 0\<rparr>
   \<and> fst (analyze_device_intelligence quiet_draws emulator_db demo_user
            (demo_user\<lparr>device_id := ''emulator_7''\<rparr>))
       = (95, [''CRITICAL: Mobile emulator detected''])"
  using device_layer_single_rule[of quiet_draws emulator_db demo_user
      "demo_user\<lparr>device_id := ''emulator_7''\<rparr>"
      "\<lparr>trust_score = 25, is_emulator = True, is_rooted = True,
        suspicious_activity_count = 0\<rparr>"]
  by (simp add: get_device_intelligence_def emulator_db_def empty_db_def demo_user_def
      analyze_device_intelligence_def add_alert_def)

section \<open>The SIM layer\<close>

lemma sim_layer_same:
  assumes "sim_id login = sim_id user"
  shows "analyze_sim_intelligence r d user login = ((0, []), d)"
  using assms by (simp add: analyze_sim_intelligence_def)

lemma sim_layer_changed:
  assumes "sim_id login \<noteq> sim_id user"
  shows "fst (analyze_sim_intelligence r d user login) =
     ((if detect_sim_cloning r user login > 0.8 then 95 else 0)
        + (if detect_dual_sim r (sim_id login) then 70 else 0)
        + (case get_sim_intelligence d (user_id user) of
             None \<Rightarrow> 65
           | Some si \<Rightarrow> if swap_frequency si > 2 then 90
                        else if swap_frequency si > 0 then 65 else 0),
      (if detect_sim_cloning r user login > 0.8 then [''CRITICAL: SIM cloning detected''] else [])
        @ (if detect_dual_sim r (sim_id login) then [''WARNING: Dual SIM usage detected''] else [])
        @ (case get_sim_intelligence d (user_id user) of
             None \<Rightarrow> [''WARNING: SIM card changed'']
           | Some si \<Rightarrow>
               if swap_frequency si > 2
               then [''CRITICAL: Multiple SIM swaps ('' @ str_int (swap_frequency si) @ '' times)'']
               else if swap_frequency si > 0 then [''WARNING: Previous SIM swap detected'']
               else []))"
  using assms
  by (simp add: analyze_sim_intelligence_def Let_def add_alert_def split: option.split)

text \<open>
  Claim C7, as the code has it. For an attempt whose SIM differs from the enrolled one:
  when the SIM intelligence is unknown, or its swap frequency is 1 or 2, the swap rule
  adds exactly 65 with a WARNING alert, on top of what the cloning and dual-SIM checks
  added; when the swap frequency is 0 (or less) the swap rule adds nothing.
\<close>

theorem sim_first_swap_rule:
  assumes "sim_id login \<noteq> sim_id user"
  shows "(get_sim_intelligence d (user_id user) = None
            \<or> (\<exists>si. get_sim_intelligence d (user_id user) = Some si
                    \<and> (swap_frequency si = 1 \<or> swap_frequency si = 2))
          \<longrightarrow> (\<exists>msg. fst (analyze_sim_intelligence r d user login) =
                  ((if detect_sim_cloning r user login > 0.8 then 95 else 0)
                     + (if detect_dual_sim r (sim_id login) then 70 else 0) + 65,
                   (if detect_sim_cloning r user login > 0.8
                    then [''CRITICAL: SIM cloning detected''] else [])
                     @ (if detect_dual_sim r (sim_id login)
                        then [''WARNING: Dual SIM usage detected''] else [])
                     @ [msg])
                \<and> alert_type msg = ''WARNING''))
       \<and> ((\<exists>si. get_sim_intelligence d (user_id user) = Some si \<and> swap_frequency si \<le> 0)
          \<longrightarrow> fst (analyze_sim_intelligence r d user login) =
                  ((if detect_sim_cloning r user login > 0.8 then 95 else 0)
                     + (if detect_dual_sim r (sim_id login) then 70 else 0),
                   (if detect_sim_cloning r user login > 0.8
                    then [''CRITICAL: SIM cloning detected''] else [])
                     @ (if detect_dual_sim r (sim_id login)
                        then [''WARNING: Dual SIM usage detected''] else [])))"
proof (intro conjI impI)
  assume "get_sim_intelligence d (user_id user) = None
            \<or> (\<exists>si. get_sim_intelligence d (user_id user) = Some si
                    \<and> (swap_frequency si = 1 \<or> swap_frequency si = 2))"
  then show "\<exists>msg. fst (analyze_sim_intelligence r d user login) =
                  ((if detect_sim_cloning r user login > 0.8 then 95 else 0)
                     + (if detect_dual_sim r (sim_id login) then 70 else 0) + 65,
                   (if detect_sim_cloning r user login > 0.8
                    then [''CRITICAL: SIM cloning detected''] else [])
                     @ (if detect_dual_sim r (sim_id login)
                        then [''WARNING: Dual SIM usage detected''] else [])
                     @ [msg])
                \<and> alert_type msg = ''WARNING''"
  proof (elim disjE exE conjE)
    assume "get_sim_intelligence d (user_id user) = None"
    then show ?thesis
      unfolding sim_layer_changed[OF assms] by (simp add: alert_type_fixed)
  next
    fix si
    assume "get_sim_intelligence d (user_id user) = Some si" "swap_frequency si = 1"
    then show ?thesis
      unfolding sim_layer_changed[OF assms] by (simp add: alert_type_fixed)
  next
    fix si
    assume "get_sim_intelligence d (user_id user) = Some si" "swap_frequency si = 2"
    then show ?thesis
      unfolding sim_layer_changed[OF assms] by (simp add: alert_type_fixed)
  qed
next
  assume "\<exists>si. get_sim_intelligence d (user_id user) = Some si \<and> swap_frequency si \<le> 0"
  then obtain si where "get_sim_intelligence d (user_id user) = Some si" "swap_frequency si \<le> 0"
    by blast
  then show "fst (analyze_sim_intelligence r d user login) =
                  ((if detect_sim_cloning r user login > 0.8 then 95 else 0)
                     + (if detect_dual_sim r (sim_id login) then 70 else 0),
                   (if detect_sim_cloning r user login > 0.8
                    then [''CRITICAL: SIM cloning detected''] else [])
                     @ (if detect_dual_sim r (sim_id login)
                        then [''WARNING: Dual SIM usage detected''] else []))"
    unfolding sim_layer_changed[OF assms] by simp
qed

theorem sim_first_swap_rule_witness:
  "sim_id (demo_user\<lparr>sim_id := ''S2''\<rparr>) \<noteq> sim_id demo_user
   \<and> get_sim_intelligence empty_db (user_id demo_user) = None
   \<and> fst (analyze_sim_intelligence quiet_draws empty_db demo_user
          (demo_user\<lparr>sim_id := ''S2''\<rparr>)) = (65, [''WARNING: SIM card changed''])
   \<and> alert_type ''WARNING: SIM card changed'' = ''WARNING''"
  using sim_first_swap_rule[of "demo_user\<lparr>sim_id := ''S2''\<rparr>" demo_user empty_db quiet_draws]
  by (simp add: get_sim_intelligence_def empty_db_def demo_user_def
      analyze_sim_intelligence_def add_alert_def detect_sim_cloning_def detect_dual_sim_def
      quiet_draws_def uniform_def alert_type_def)

text \<open>
  Claim C7 as stated fails: with a SIM record of swap frequency 0 the changed SIM adds
  no score and no alert.
\<close>

theorem sim_zero_swaps_counterexample:
  "sim_id (demo_user\<lparr>sim_id := ''S2''\<rparr>) \<noteq> sim_id demo_user
   \<and> get_sim_intelligence no_swap_db (user_id demo_user)
       = Some \<lparr>swap_frequency = 0, clone_detection_score = 0.1, dual_sim_detected = False\<rparr>
   \<and> fst (analyze_sim_intelligence quiet_draws no_swap_db demo_user
            (demo_user\<lparr>sim_id := ''S2''\<rparr>)) = (0, [])"
  by (simp add: get_sim_intelligence_def no_swap_db_def empty_db_def demo_user_def
      analyze_sim_intelligence_def add_alert_def detect_sim_cloning_def detect_dual_sim_def
      quiet_draws_def uniform_def)

section \<open>The geospatial layer\<close>

lemma geo_layer_eq:
  assumes "calculate_distance (lat user) (lon user) (lat login) (lon login) = Inr km"
  shows "analyze_geospatial_intelligence r user login = Inr
     ((if km > 5000 then 85 else if km > 2000 then 55 else if km > 500 then 30 else 0)
        + (if assess_location_risk r (lat login) (lon login) > 0.7 then 60 else 0),
      (if km > 5000 then [''CRITICAL: Impossible travel '' @ fmt_0f km @ ''km'']
       else if km > 2000 then [''WARNING: High-speed travel '' @ fmt_0f km @ ''km'']
       else if km > 500 then [''INFO: New location '' @ fmt_0f km @ ''km away'']
       else [])
        @ (if assess_location_risk r (lat login) (lon login) > 0.7
           then [''WARNING: High-risk geographic area''] else []))"
  using assms
  by (simp add: analyze_geospatial_intelligence_def Let_def add_alert_def)

text \<open>
  Claim C4, as the code has it. With \<open>km\<close> the distance from the enrolled location to
  the attempt's: above 5000 km the distance rule adds exactly 85 with a CRITICAL
  alert; above 2000 and up to 5000 km, 55 with a WARNING alert; above 500 and up to
  2000 km, 30 with an INFO alert; up to 500 km, nothing. The high-risk-area rule of
  the same layer adds 60 with a WARNING alert on top when it fires.
\<close>

theorem geo_distance_bands:
  assumes "calculate_distance (lat user) (lon user) (lat login) (lon login) = Inr km"
  shows "\<exists>alerts. analyze_geospatial_intelligence r user login = Inr
           ((if km > 5000 then 85 else if km > 2000 then 55
             else if km > 500 then 30 else 0)
              + (if assess_location_risk r (lat login) (lon login) > 0.7 then 60 else 0),
            alerts)
         \<and> map alert_type alerts =
             (if km > 5000 then [''CRITICAL''] else if km > 2000 then [''WARNING'']
              else if km > 500 then [''INFO''] else [])
               @ (if assess_location_risk r (lat login) (lon login) > 0.7
                  then [''WARNING''] else [])"
  unfolding geo_layer_eq[OF assms]
  by (simp add: alert_type_fixed alert_type_travel_critical[simplified]
      alert_type_travel_warning[simplified] alert_type_travel_info[simplified])

theorem geo_distance_bands_witness:
  "calculate_distance 0 0 0 9 = Inr (6371 * radians 9)
   \<and> (\<exists>alerts. analyze_geospatial_intelligence quiet_draws equator_user
                   (equator_user\<lparr>lon := 9\<rparr>) = Inr (30, alerts)
          \<and> map alert_type alerts = [''INFO''])"
proof -
  have d: "calculate_distance (lat equator_user) (lon equator_user)
       (lat (equator_user\<lparr>lon := 9\<rparr>)) (lon (equator_user\<lparr>lon := 9\<rparr>))
     = Inr (6371 * radians 9)"
    by (simp add: equator_user_def equator_nine_degrees)
  show ?thesis
    using geo_distance_bands[OF d, of quiet_draws] equator_nine_degrees
    by (simp add: assess_location_risk_def quiet_draws_def uniform_def)
qed

text \<open>
  Claim C4 as stated fails: at about 1000 km (nine degrees along the equator), within
  the claim's 55/WARNING band, the layer adds 30 with an INFO alert.
\<close>

theorem geo_mid_distance_counterexample:
  "calculate_distance (lat equator_user) (lon equator_user)
       (lat (equator_user\<lparr>lon := 9\<rparr>)) (lon (equator_user\<lparr>lon := 9\<rparr>))
     = Inr (6371 * radians 9)
   \<and> 500 < 6371 * radians 9 \<and> 6371 * radians 9 \<le> 2000
   \<and> map_sum id (apsnd (map alert_type))
         (analyze_geospatial_intelligence quiet_draws equator_user (equator_user\<lparr>lon := 9\<rparr>))
       = Inr (30, [''INFO''])"
proof -
  have d: "calculate_distance (lat equator_user) (lon equator_user)
       (lat (equator_user\<lparr>lon := 9\<rparr>)) (lon (equator_user\<lparr>lon := 9\<rparr>))
     = Inr (6371 * radians 9)"
    by (simp add: equator_user_def equator_nine_degrees)
  have "map_sum id (apsnd (map alert_type))
         (analyze_geospatial_intelligence quiet_draws equator_user (equator_user\<lparr>lon := 9\<rparr>))
       = Inr (30, [''INFO''])"
    unfolding geo_layer_eq[OF d] using equator_nine_degrees(2,3)
    by (simp add: assess_location_risk_def quiet_draws_def uniform_def
        alert_type_travel_info[simplified])
  then show ?thesis using d equator_nine_degrees(2,3) by simp
qed

section \<open>The fraud-pattern layer\<close>

lemma check_fraud_patterns_failure:
  assumes "\<not> db_available d"
  shows "check_fraud_patterns r d login = Some 0"
  using assms by (simp add: check_fraud_patterns_def select_max_confidence_def)

lemma check_fraud_patterns_available:
  assumes "db_available d"
  shows "check_fraud_patterns r d login =
     (if List.map_filter fp_confidence_score
            (filter (\<lambda>p. fp_device_id p = Some (device_id login)
                          \<or> fp_sim_id p = Some (sim_id login)) (fraud_patterns d)) = []
      then Some (uniform 0.1 0.4 (pattern_u r)) else Some 0)"
  using assms
  by (simp add: check_fraud_patterns_def select_max_confidence_def max_confidence_def
      split: list.split)

lemma uniform_pattern_low:
  assumes "unit_sample u"
  shows "uniform 0.1 0.4 u \<le> 0.4"
  using assms by (simp add: uniform_def unit_sample_def)

lemma check_fraud_patterns_low:
  assumes "unit_sample (pattern_u r)"
  shows "\<exists>fc. check_fraud_patterns r d login = Some fc \<and> fc \<le> 0.4"
proof (cases "db_available d")
  case True
  then show ?thesis
    using uniform_pattern_low[OF assms] by (simp add: check_fraud_patterns_available)
next
  case False
  then show ?thesis by (simp add: check_fraud_patterns_failure)
qed

lemma pattern_layer_eq:
  assumes "check_fraud_patterns r d login = Some fc"
  shows "analyze_fraud_patterns r d user login =
           (if fc > 0.8 then (75, [''CRITICAL: Matches known fraud pattern''])
            else if fc > 0.6 then (50, [''WARNING: Similar to fraud pattern''])
            else (0, []))"
  using assms by (simp add: analyze_fraud_patterns_def Let_def add_alert_def)

lemma pattern_layer_quiet:
  assumes "unit_sample (pattern_u r)"
  shows "analyze_fraud_patterns r d user login = (0, [])"
proof -
  obtain fc where fc: "check_fraud_patterns r d login = Some fc" "fc \<le> 0.4"
    using check_fraud_patterns_low[OF assms] by blast
  then show ?thesis by (simp add: pattern_layer_eq[OF fc(1)])
qed

text \<open>
  Claim C6 fails on the code. A stored pattern of confidence 0.9 matches the attempt's
  device, so the claim has the rule add 75 with a CRITICAL alert. In the code the
  conversion \<^verbatim>\<open>float(result)\<close> of the fetched row raises, the handler of
  \<^verbatim>\<open>_check_fraud_patterns\<close> returns 0.0, and the layer adds nothing and raises no alert.
\<close>

theorem fraud_pattern_match_ignored:
  "select_max_confidence pattern_db demo_user = Inr (PyTuple [PyFloat 0.9])
   \<and> py_float (PyTuple [PyFloat 0.9]) = Inl TypeError
   \<and> check_fraud_patterns quiet_draws pattern_db demo_user = Some 0
   \<and> analyze_fraud_patterns quiet_draws pattern_db demo_user demo_user = (0, [])"
  by (simp add: analyze_fraud_patterns_def check_fraud_patterns_def select_max_confidence_def
      max_confidence_def pattern_db_def empty_db_def demo_user_def)

section \<open>The whole analysis\<close>

lemma update_device_frame:
  "db_available (update_device_intelligence r d did uid) = db_available d"
  "users (update_device_intelligence r d did uid) = users d"
  "sim_intelligence (update_device_intelligence r d did uid) = sim_intelligence d"
  "fraud_patterns (update_device_intelligence r d did uid) = fraud_patterns d"
  "attempts (update_device_intelligence r d did uid) = attempts d"
  by (simp_all add: update_device_intelligence_def Let_def)

lemma update_sim_frame:
  "db_available (update_sim_intelligence r d sid uid) = db_available d"
  "users (update_sim_intelligence r d sid uid) = users d"
  "device_intelligence (update_sim_intelligence r d sid uid) = device_intelligence d"
  "fraud_patterns (update_sim_intelligence r d sid uid) = fraud_patterns d"
  "attempts (update_sim_intelligence r d sid uid) = attempts d"
  by (simp_all add: update_sim_intelligence_def Let_def)

lemma device_layer_frame:
  "db_available (snd (analyze_device_intelligence r d user login)) = db_available d"
  "users (snd (analyze_device_intelligence r d user login)) = users d"
  "sim_intelligence (snd (analyze_device_intelligence r d user login)) = sim_intelligence d"
  "fraud_patterns (snd (analyze_device_intelligence r d user login)) = fraud_patterns d"
  "attempts (snd (analyze_device_intelligence r d user login)) = attempts d"
  by (simp_all add: analyze_device_intelligence_def Let_def update_device_frame)

lemma sim_layer_frame:
  "db_available (snd (analyze_sim_intelligence r d user login)) = db_available d"
  "fraud_patterns (snd (analyze_sim_intelligence r d user login)) = fraud_patterns d"
  "attempts (snd (analyze_sim_intelligence r d user login)) = attempts d"
  by (simp_all add: analyze_sim_intelligence_def Let_def update_sim_frame)

lemma sim_layer_reads:
  assumes "db_available d' = db_available d" "users d' = users d"
    "sim_intelligence d' = sim_intelligence d"
  shows "fst (analyze_sim_intelligence r d' user login)
           = fst (analyze_sim_intelligence r d user login)"
proof -
  have "get_sim_intelligence d' (user_id user) = get_sim_intelligence d (user_id user)"
    using assms by (simp add: get_sim_intelligence_def split: option.split)
  then show ?thesis
    by (cases "sim_id login = sim_id user") (simp_all add: sim_layer_same sim_layer_changed)
qed

lemma temporal_layer_reads:
  assumes "db_available d' = db_available d" "attempts d' = attempts d"
  shows "analyze_temporal_patterns w d' user login = analyze_temporal_patterns w d user login"
  using assms by (simp add: analyze_temporal_patterns_def get_recent_attempts_def)

lemma pattern_layer_reads:
  assumes "db_available d' = db_available d" "fraud_patterns d' = fraud_patterns d"
  shows "analyze_fraud_patterns r d' user login = analyze_fraud_patterns r d user login"
  using assms
  by (simp add: analyze_fraud_patterns_def check_fraud_patterns_def select_max_confidence_def)

lemma comprehensive_layers:
  assumes "analyze_geospatial_intelligence (rnd w) user login = Inr geo"
  shows "\<exists>d'. comprehensive_risk_analysis w user login = Inr
     (combine_layers
        (fst (analyze_device_intelligence (rnd w) (db w) user login))
        (fst (analyze_sim_intelligence (rnd w) (db w) user login))
        geo
        (analyze_behavioral_biometrics user login)
        (analyze_temporal_patterns w (db w) user login)
        (analyze_network_intelligence (rnd w) user login)
        (analyze_fraud_patterns (rnd w) (db w) user login), d')"
proof -
  obtain device d1 where dev: "analyze_device_intelligence (rnd w) (db w) user login = (device, d1)"
    by (cases "analyze_device_intelligence (rnd w) (db w) user login")
  obtain sim d2 where sim: "analyze_sim_intelligence (rnd w) d1 user login = (sim, d2)"
    by (cases "analyze_sim_intelligence (rnd w) d1 user login")
  have d1: "d1 = snd (analyze_device_intelligence (rnd w) (db w) user login)"
    and d2: "d2 = snd (analyze_sim_intelligence (rnd w) d1 user login)"
    by (simp_all add: dev sim)
  have f1: "db_available d1 = db_available (db w)" "users d1 = users (db w)"
    "sim_intelligence d1 = sim_intelligence (db w)" "fraud_patterns d1 = fraud_patterns (db w)"
    "attempts d1 = attempts (db w)"
    unfolding d1 by (rule device_layer_frame)+
  have f2: "db_available d2 = db_available (db w)" "fraud_patterns d2 = fraud_patterns (db w)"
    "attempts d2 = attempts (db w)"
    unfolding d2 by (simp_all add: sim_layer_frame f1)
  have s: "fst (analyze_sim_intelligence (rnd w) (db w) user login) = sim"
    using sim_layer_reads[OF f1(1) f1(2) f1(3), of "rnd w" user login] by (simp add: sim)
  have t: "analyze_temporal_patterns w d2 user login
             = analyze_temporal_patterns w (db w) user login"
    by (rule temporal_layer_reads) (rule f2)+
  have p: "analyze_fraud_patterns (rnd w) d2 user login
             = analyze_fraud_patterns (rnd w) (db w) user login"
    by (rule pattern_layer_reads) (rule f2)+
  have "comprehensive_risk_analysis w user login = Inr
     (combine_layers device sim geo (analyze_behavioral_biometrics user login)
        (analyze_temporal_patterns w d2 user login)
        (analyze_network_intelligence (rnd w) user login)
        (analyze_fraud_patterns (rnd w) d2 user login), d2)"
    unfolding comprehensive_risk_analysis_def combine_layers_def
    by (simp only: Let_def dev sim assms split_conv sum.case)
  then show ?thesis by (simp only: dev s t p fst_conv) blast
qed

text \<open>An exception of the geospatial layer is not caught: the analysis raises it.\<close>

lemma comprehensive_raises:
  assumes "analyze_geospatial_intelligence (rnd w) user login = Inl e"
  shows "comprehensive_risk_analysis w user login = Inl e"
  unfolding comprehensive_risk_analysis_def
  by (simp only: Let_def assms sum.case split_beta)

text \<open>The authentication is the decision on what the analysis returns.\<close>

lemma authenticate_eq:
  "authenticate w user login =
     map_sum id (\<lambda>res. (decision_status (fst res) (fst (snd res)), res))
       (map_sum id fst (comprehensive_risk_analysis w user login))"
  by (cases "comprehensive_risk_analysis w user login") (auto simp: authenticate_def)

lemma device_layer_nonneg: "0 \<le> fst (fst (analyze_device_intelligence r d user login))"
proof (cases "device_id login = device_id user")
  case True
  then show ?thesis by (simp add: device_layer_same)
next
  case False
  show ?thesis
  proof (cases "get_device_intelligence d (device_id login)")
    case None
    then show ?thesis using False by (simp add: device_layer_unknown)
  next
    case (Some di)
    then show ?thesis using False by (simp add: device_layer_known)
  qed
qed

lemma sim_layer_nonneg: "0 \<le> fst (fst (analyze_sim_intelligence r d user login))"
proof (cases "sim_id login = sim_id user")
  case True
  then show ?thesis by (simp add: sim_layer_same)
next
  case False
  then show ?thesis by (simp add: sim_layer_changed split: option.split)
qed

lemma geo_layer_nonneg:
  assumes "analyze_geospatial_intelligence r user login = Inr geo"
  shows "0 \<le> fst geo"
proof (cases "calculate_distance (lat user) (lon user) (lat login) (lon login)")
  case (Inl e)
  then show ?thesis using assms by (simp add: analyze_geospatial_intelligence_def)
next
  case (Inr km)
  from geo_layer_eq[OF this, of r] assms show ?thesis by auto
qed

lemma behavior_layer_nonneg: "0 \<le> fst (analyze_behavioral_biometrics user login)"
  by (simp add: analyze_behavioral_biometrics_def Let_def add_alert_def)

lemma temporal_layer_nonneg: "0 \<le> fst (analyze_temporal_patterns w d user login)"
  by (simp add: analyze_temporal_patterns_def Let_def add_alert_def)

lemma network_layer_nonneg: "0 \<le> fst (analyze_network_intelligence r user login)"
  by (simp add: analyze_network_intelligence_def add_alert_def)

lemma pattern_layer_nonneg: "0 \<le> fst (analyze_fraud_patterns r d user login)"
  by (simp add: analyze_fraud_patterns_def Let_def add_alert_def split: option.split)

text \<open>Unfolding everything, for the evaluation of concrete inputs.\<close>

lemmas layer_defs =
  analyze_device_intelligence_def analyze_sim_intelligence_def
  analyze_geospatial_intelligence_def analyze_behavioral_biometrics_def
  analyze_temporal_patterns_def analyze_network_intelligence_def
  analyze_fraud_patterns_def detect_sim_cloning_def detect_dual_sim_def
  detect_bot_behavior_def assess_location_risk_def check_fraud_patterns_def
  select_max_confidence_def max_confidence_def get_device_intelligence_def
  get_sim_intelligence_def get_recent_attempts_def update_device_intelligence_def
  update_sim_intelligence_def add_alert_def uniform_def calculate_ml_confidence_def

lemmas example_defs =
  noon_world_def quiet_draws_def empty_db_def demo_user_def

subsection \<open>The score and its breakdown\<close>

text \<open>
  Claim C2. Whenever the geospatial layer returns, the analysis returns; the score it
  returns is the minimum of 100 and the sum of the seven layers' score deltas, so it
  lies between 0 and 100; the breakdown holds the seven deltas under their category
  names, and its values sum to the total before the cap.
\<close>

theorem total_score_capped:
  assumes "analyze_geospatial_intelligence (rnd w) user login = Inr g"
  shows "\<exists>device sim geo behavior temporal network pattern alerts breakdown conf d'.
     comprehensive_risk_analysis w user login =
       Inr ((min (device + sim + geo + behavior + temporal + network + pattern) 100,
             alerts, breakdown, conf), d')
     \<and> device = fst (fst (analyze_device_intelligence (rnd w) (db w) user login))
     \<and> sim = fst (fst (analyze_sim_intelligence (rnd w) (db w) user login))
     \<and> geo = fst g
     \<and> behavior = fst (analyze_behavioral_biometrics user login)
     \<and> temporal = fst (analyze_temporal_patterns w (db w) user login)
     \<and> network = fst (analyze_network_intelligence (rnd w) user login)
     \<and> pattern = fst (analyze_fraud_patterns (rnd w) (db w) user login)
     \<and> breakdown =
         [(''device_analysis'', device), (''sim_analysis'', sim),
          (''geospatial_analysis'', geo), (''behavioral_analysis'', behavior),
          (''temporal_analysis'', temporal), (''network_analysis'', network),
          (''pattern_analysis'', pattern)]
     \<and> sum_list (map snd breakdown)
         = device + sim + geo + behavior + temporal + network + pattern
     \<and> 0 \<le> min (device + sim + geo + behavior + temporal + network + pattern) 100
     \<and> min (device + sim + geo + behavior + temporal + network + pattern) 100 \<le> 100"
proof -
  obtain d' where c: "comprehensive_risk_analysis w user login = Inr
     (combine_layers
        (fst (analyze_device_intelligence (rnd w) (db w) user login))
        (fst (analyze_sim_intelligence (rnd w) (db w) user login))
        g
        (analyze_behavioral_biometrics user login)
        (analyze_temporal_patterns w (db w) user login)
        (analyze_network_intelligence (rnd w) user login)
        (analyze_fraud_patterns (rnd w) (db w) user login), d')"
    using comprehensive_layers[OF assms] by blast
  define device where "device = fst (fst (analyze_device_intelligence (rnd w) (db w) user login))"
  define sim where "sim = fst (fst (analyze_sim_intelligence (rnd w) (db w) user login))"
  define geo where "geo = fst g"
  define behavior where "behavior = fst (analyze_behavioral_biometrics user login)"
  define temporal where "temporal = fst (analyze_temporal_patterns w (db w) user login)"
  define network where "network = fst (analyze_network_intelligence (rnd w) user login)"
  define pattern where "pattern = fst (analyze_fraud_patterns (rnd w) (db w) user login)"
  have nonneg: "0 \<le> device" "0 \<le> sim" "0 \<le> geo" "0 \<le> behavior" "0 \<le> temporal"
    "0 \<le> network" "0 \<le> pattern"
    unfolding device_def sim_def geo_def behavior_def temporal_def network_def pattern_def
    by (simp_all add: device_layer_nonneg sim_layer_nonneg geo_layer_nonneg[OF assms]
        behavior_layer_nonneg temporal_layer_nonneg network_layer_nonneg pattern_layer_nonneg)
  have "\<exists>alerts conf. comprehensive_risk_analysis w user login =
       Inr ((min (device + sim + geo + behavior + temporal + network + pattern) 100,
             alerts,
             [(''device_analysis'', device), (''sim_analysis'', sim),
              (''geospatial_analysis'', geo), (''behavioral_analysis'', behavior),
              (''temporal_analysis'', temporal), (''network_analysis'', network),
              (''pattern_analysis'', pattern)], conf), d')"
    unfolding c combine_layers_def device_def sim_def geo_def behavior_def temporal_def
      network_def pattern_def
    by (simp only: Let_def) blast
  moreover have "0 \<le> min (device + sim + geo + behavior + temporal + network + pattern) 100"
    using nonneg by simp
  ultimately show ?thesis
    unfolding device_def[symmetric] sim_def[symmetric] behavior_def[symmetric]
      temporal_def[symmetric] network_def[symmetric] pattern_def[symmetric] geo_def[symmetric]
    by (auto simp: device_def sim_def behavior_def temporal_def network_def pattern_def geo_def)
qed

theorem total_score_capped_witness:
  "analyze_geospatial_intelligence (rnd noon_world) demo_user
      (demo_user\<lparr>device_id := ''D2'', keystroke_speed := 100, mouse_speed := 150\<rparr>)
     = Inr (0, [])
   \<and> map_sum id fst (comprehensive_risk_analysis noon_world demo_user
        (demo_user\<lparr>device_id := ''D2'', keystroke_speed := 100, mouse_speed := 150\<rparr>))
     = Inr (100,
          [''CRITICAL: Unknown device detected'', ''CRITICAL: Automated/bot behavior detected''],
          [(''device_analysis'', 80), (''sim_analysis'', 0), (''geospatial_analysis'', 0),
           (''behavioral_analysis'', 90), (''temporal_analysis'', 0),
           (''network_analysis'', 0), (''pattern_analysis'', 0)],
          0.95)"
proof -
  have g: "analyze_geospatial_intelligence (rnd noon_world) demo_user
      (demo_user\<lparr>device_id := ''D2'', keystroke_speed := 100, mouse_speed := 150\<rparr>)
     = Inr (0, [])"
    by (simp add: layer_defs example_defs calculate_distance_same)
  show ?thesis
    using g total_score_capped[OF g]
    by (simp add: comprehensive_risk_analysis_def layer_defs example_defs
        calculate_distance_same)
qed

subsection \<open>What the random samples decide\<close>

lemma device_layer_draws:
  "fst (analyze_device_intelligence r1 d user login)
     = fst (analyze_device_intelligence r2 d user login)"
  by (simp add: analyze_device_intelligence_def Let_def)

lemma sim_layer_draws:
  assumes "draw_events r1 = draw_events r2"
  shows "fst (analyze_sim_intelligence r1 d user login)
           = fst (analyze_sim_intelligence r2 d user login)"
proof (cases "sim_id login = sim_id user")
  case True
  then show ?thesis by (simp add: sim_layer_same)
next
  case False
  have "(detect_sim_cloning r1 user login > 0.8) = (detect_sim_cloning r2 user login > 0.8)"
    "detect_dual_sim r1 (sim_id login) = detect_dual_sim r2 (sim_id login)"
    using assms False by (simp_all add: draw_events_def detect_sim_cloning_def detect_dual_sim_def)
  then show ?thesis by (simp add: sim_layer_changed[OF False])
qed

lemma geo_layer_draws:
  assumes "draw_events r1 = draw_events r2"
  shows "analyze_geospatial_intelligence r1 user login
           = analyze_geospatial_intelligence r2 user login"
proof (cases "calculate_distance (lat user) (lon user) (lat login) (lon login)")
  case (Inl e)
  then show ?thesis by (simp add: analyze_geospatial_intelligence_def)
next
  case (Inr km)
  have "(assess_location_risk r1 (lat login) (lon login) > 0.7)
          = (assess_location_risk r2 (lat login) (lon login) > 0.7)"
    using assms by (simp add: draw_events_def assess_location_risk_def)
  then show ?thesis by (simp add: geo_layer_eq[OF Inr])
qed

lemma network_layer_draws:
  assumes "draw_events r1 = draw_events r2"
  shows "analyze_network_intelligence r1 user login = analyze_network_intelligence r2 user login"
  using assms by (simp add: draw_events_def analyze_network_intelligence_def)

lemma temporal_layer_draws:
  "analyze_temporal_patterns (w\<lparr>rnd := r\<rparr>) d user login
     = analyze_temporal_patterns w d user login"
  by (simp add: analyze_temporal_patterns_def get_recent_attempts_def)

lemma analysis_draws:
  assumes "draw_events r1 = draw_events r2"
    and "unit_sample (pattern_u r1)" and "unit_sample (pattern_u r2)"
  shows "map_sum id fst (comprehensive_risk_analysis (w\<lparr>rnd := r1\<rparr>) user login)
           = map_sum id fst (comprehensive_risk_analysis (w\<lparr>rnd := r2\<rparr>) user login)"
proof (cases "analyze_geospatial_intelligence r1 user login")
  case (Inl e)
  then have "analyze_geospatial_intelligence r2 user login = Inl e"
    using geo_layer_draws[OF assms(1)] by simp
  then have "comprehensive_risk_analysis (w\<lparr>rnd := r2\<rparr>) user login = Inl e"
    by (intro comprehensive_raises) simp
  moreover have "comprehensive_risk_analysis (w\<lparr>rnd := r1\<rparr>) user login = Inl e"
    using Inl by (intro comprehensive_raises) simp
  ultimately show ?thesis by simp
next
  case (Inr geo)
  then have g2: "analyze_geospatial_intelligence r2 user login = Inr geo"
    using geo_layer_draws[OF assms(1)] by simp
  have p: "analyze_fraud_patterns r1 (db w) user login = analyze_fraud_patterns r2 (db w) user login"
    using assms(2,3) by (simp add: pattern_layer_quiet)
  obtain d1 where a1: "comprehensive_risk_analysis (w\<lparr>rnd := r1\<rparr>) user login = Inr
     (combine_layers
        (fst (analyze_device_intelligence r1 (db w) user login))
        (fst (analyze_sim_intelligence r1 (db w) user login))
        geo
        (analyze_behavioral_biometrics user login)
        (analyze_temporal_patterns w (db w) user login)
        (analyze_network_intelligence r1 user login)
        (analyze_fraud_patterns r1 (db w) user login), d1)"
    using comprehensive_layers[of "w\<lparr>rnd := r1\<rparr>" user login geo] Inr
    by (auto simp: temporal_layer_draws)
  obtain d2 where a2: "comprehensive_risk_analysis (w\<lparr>rnd := r2\<rparr>) user login = Inr
     (combine_layers
        (fst (analyze_device_intelligence r2 (db w) user login))
        (fst (analyze_sim_intelligence r2 (db w) user login))
        geo
        (analyze_behavioral_biometrics user login)
        (analyze_temporal_patterns w (db w) user login)
        (analyze_network_intelligence r2 user login)
        (analyze_fraud_patterns r2 (db w) user login), d2)"
    using comprehensive_layers[of "w\<lparr>rnd := r2\<rparr>" user login geo] g2
    by (auto simp: temporal_layer_draws)
  show ?thesis
    unfolding a1 a2
    by (simp add: device_layer_draws[of r1 "db w" user login r2]
        sim_layer_draws[OF assms(1), of "db w" user login]
        network_layer_draws[OF assms(1), of user login] p)
qed

text \<open>
  Claim C3, as the code has it. With the profile, the attempt, the database and the
  clock fixed, the outcome (status, score, alerts, breakdown, confidence) depends on
  the generator's samples only through four events: SIM cloning detected, dual SIM
  detected, high-risk area, VPN or proxy detected. Two runs whose samples agree on
  these events have the same outcome.
\<close>

theorem analysis_determined_by_draw_events:
  assumes "draw_events r1 = draw_events r2"
    and "unit_sample (pattern_u r1)" and "unit_sample (pattern_u r2)"
  shows "authenticate (w\<lparr>rnd := r1\<rparr>) user login = authenticate (w\<lparr>rnd := r2\<rparr>) user login"
  by (simp only: authenticate_eq analysis_draws[OF assms])

theorem analysis_determined_by_draw_events_witness:
  "draw_events quiet_draws = draw_events (quiet_draws\<lparr>clone_u := 0.2, vpn_u := 0.9\<rparr>)
   \<and> unit_sample (pattern_u quiet_draws)
   \<and> unit_sample (pattern_u (quiet_draws\<lparr>clone_u := 0.2, vpn_u := 0.9\<rparr>))
   \<and> authenticate (noon_world\<lparr>rnd := quiet_draws\<rparr>) demo_user
         (demo_user\<lparr>sim_id := ''S2''\<rparr>)
       = authenticate (noon_world\<lparr>rnd := quiet_draws\<lparr>clone_u := 0.2, vpn_u := 0.9\<rparr>\<rparr>)
           demo_user (demo_user\<lparr>sim_id := ''S2''\<rparr>)"
proof -
  have e: "draw_events quiet_draws = draw_events (quiet_draws\<lparr>clone_u := 0.2, vpn_u := 0.9\<rparr>)"
    by (simp add: draw_events_def quiet_draws_def uniform_def)
  have u: "unit_sample (pattern_u quiet_draws)"
    "unit_sample (pattern_u (quiet_draws\<lparr>clone_u := 0.2, vpn_u := 0.9\<rparr>))"
    by (simp_all add: unit_sample_def quiet_draws_def)
  show ?thesis
    using e u analysis_determined_by_draw_events[OF e u, of noon_world demo_user
        "demo_user\<lparr>sim_id := ''S2''\<rparr>"]
    by simp
qed

text \<open>
  Claim C3 as stated fails: with the same profile, attempt, database and clock, the
  sample of the VPN check alone moves the score from 20 to 60 and the status from
  APPROVED to CHALLENGE.
\<close>

theorem vpn_draw_changes_decision_counterexample:
  "db (noon_world\<lparr>rnd := quiet_draws\<lparr>vpn_u := 0.05\<rparr>\<rparr>) = db noon_world
   \<and> clock_hour (noon_world\<lparr>rnd := quiet_draws\<lparr>vpn_u := 0.05\<rparr>\<rparr>) = clock_hour noon_world
   \<and> authenticate noon_world demo_user (demo_user\<lparr>keystroke_speed := 230\<rparr>)
       = Inr (APPROVED, 20, [''INFO: Minor behavioral variation''],
              [(''device_analysis'', 0), (''sim_analysis'', 0), (''geospatial_analysis'', 0),
               (''behavioral_analysis'', 20), (''temporal_analysis'', 0),
               (''network_analysis'', 0), (''pattern_analysis'', 0)], 0.92)
   \<and> authenticate (noon_world\<lparr>rnd := quiet_draws\<lparr>vpn_u := 0.05\<rparr>\<rparr>) demo_user
         (demo_user\<lparr>keystroke_speed := 230\<rparr>)
       = Inr (CHALLENGE, 60,
              [''INFO: Minor behavioral variation'', ''WARNING: VPN/Proxy usage detected''],
              [(''device_analysis'', 0), (''sim_analysis'', 0), (''geospatial_analysis'', 0),
               (''behavioral_analysis'', 20), (''temporal_analysis'', 0),
               (''network_analysis'', 40), (''pattern_analysis'', 0)], 0.92)"
  by (simp add: authenticate_def comprehensive_risk_analysis_def layer_defs example_defs
      calculate_distance_same decision_status_def)

subsection \<open>An unknown device alone\<close>

text \<open>
  Claim C5, as the code has it. When the device differs, the device has no intelligence
  record and no other layer contributes, the score is 80 with exactly one alert, the
  CRITICAL unknown-device alert, and the status is BLOCKED: the score reaches the
  blocking threshold of 80.
\<close>

theorem unknown_device_alone_blocked:
  assumes "device_id login \<noteq> device_id user"
    and "get_device_intelligence (db w) (device_id login) = None"
    and "fst (analyze_sim_intelligence (rnd w) (db w) user login) = (0, [])"
    and "analyze_geospatial_intelligence (rnd w) user login = Inr (0, [])"
    and "analyze_behavioral_biometrics user login = (0, [])"
    and "analyze_temporal_patterns w (db w) user login = (0, [])"
    and "analyze_network_intelligence (rnd w) user login = (0, [])"
    and "analyze_fraud_patterns (rnd w) (db w) user login = (0, [])"
  shows "authenticate w user login =
           Inr (BLOCKED, 80, [''CRITICAL: Unknown device detected''],
                [(''device_analysis'', 80), (''sim_analysis'', 0),
                 (''geospatial_analysis'', 0), (''behavioral_analysis'', 0),
                 (''temporal_analysis'', 0), (''network_analysis'', 0),
                 (''pattern_analysis'', 0)], 0.88)
         \<and> map alert_type [''CRITICAL: Unknown device detected''] = [''CRITICAL'']"
proof -
  have dev: "fst (analyze_device_intelligence (rnd w) (db w) user login)
               = (80, [''CRITICAL: Unknown device detected''])"
    using assms(1,2) by (rule device_layer_unknown)
  obtain d' where c: "comprehensive_risk_analysis w user login = Inr
     (combine_layers (80, [''CRITICAL: Unknown device detected''])
        (0, []) (0, []) (0, []) (0, []) (0, []) (0, []), d')"
    using comprehensive_layers[OF assms(4)] by (auto simp: dev assms(3,5,6,7,8))
  have "combine_layers (80, [''CRITICAL: Unknown device detected''])
        (0, []) (0, []) (0, []) (0, []) (0, []) (0, [])
      = (80, [''CRITICAL: Unknown device detected''],
                [(''device_analysis'', 80), (''sim_analysis'', 0),
                 (''geospatial_analysis'', 0), (''behavioral_analysis'', 0),
                 (''temporal_analysis'', 0), (''network_analysis'', 0),
                 (''pattern_analysis'', 0)], 0.88)"
    by (simp add: combine_layers_def calculate_ml_confidence_def)
  then show ?thesis
    by (simp add: authenticate_def c decision_status_def alert_type_fixed)
qed

theorem unknown_device_alone_blocked_witness:
  "authenticate noon_world demo_user (demo_user\<lparr>device_id := ''D2''\<rparr>) =
     Inr (BLOCKED, 80, [''CRITICAL: Unknown device detected''],
          [(''device_analysis'', 80), (''sim_analysis'', 0),
           (''geospatial_analysis'', 0), (''behavioral_analysis'', 0),
           (''temporal_analysis'', 0), (''network_analysis'', 0),
           (''pattern_analysis'', 0)], 0.88)"
proof -
  have "authenticate noon_world demo_user (demo_user\<lparr>device_id := ''D2''\<rparr>) =
     Inr (BLOCKED, 80, [''CRITICAL: Unknown device detected''],
          [(''device_analysis'', 80), (''sim_analysis'', 0),
           (''geospatial_analysis'', 0), (''behavioral_analysis'', 0),
           (''temporal_analysis'', 0), (''network_analysis'', 0),
           (''pattern_analysis'', 0)], 0.88)
         \<and> map alert_type [''CRITICAL: Unknown device detected''] = [''CRITICAL'']"
    by (rule unknown_device_alone_blocked)
      (simp_all add: layer_defs example_defs calculate_distance_same)
  then show ?thesis by simp
qed

text \<open>
  Claim C5 as stated fails: for such an attempt the status is BLOCKED, not CHALLENGE.
\<close>

theorem unknown_device_counterexample:
  "device_id (demo_user\<lparr>device_id := ''D2''\<rparr>) \<noteq> device_id demo_user
   \<and> get_device_intelligence (db noon_world) ''D2'' = None
   \<and> map_sum id fst (authenticate noon_world demo_user (demo_user\<lparr>device_id := ''D2''\<rparr>))
       = Inr BLOCKED
   \<and> map_sum id (\<lambda>out. (fst (snd out), fst (snd (snd out))))
         (authenticate noon_world demo_user (demo_user\<lparr>device_id := ''D2''\<rparr>))
       = Inr (80, [''CRITICAL: Unknown device detected''])"
  by (simp add: authenticate_def comprehensive_risk_analysis_def layer_defs example_defs
      calculate_distance_same decision_status_def)

subsection \<open>No validation of the input\<close>

lemma login_user_id_unread:
  "analyze_device_intelligence r d user (login\<lparr>user_id := uid\<rparr>)
     = analyze_device_intelligence r d user login"
  "analyze_sim_intelligence r d user (login\<lparr>user_id := uid\<rparr>)
     = analyze_sim_intelligence r d user login"
  "analyze_geospatial_intelligence r user (login\<lparr>user_id := uid\<rparr>)
     = analyze_geospatial_intelligence r user login"
  "analyze_behavioral_biometrics user (login\<lparr>user_id := uid\<rparr>)
     = analyze_behavioral_biometrics user login"
  "analyze_temporal_patterns w d user (login\<lparr>user_id := uid\<rparr>)
     = analyze_temporal_patterns w d user login"
  "analyze_network_intelligence r user (login\<lparr>user_id := uid\<rparr>)
     = analyze_network_intelligence r user login"
  "analyze_fraud_patterns r d user (login\<lparr>user_id := uid\<rparr>)
     = analyze_fraud_patterns r d user login"
  by (simp_all add: analyze_device_intelligence_def analyze_sim_intelligence_def
      analyze_geospatial_intelligence_def analyze_behavioral_biometrics_def
      analyze_temporal_patterns_def analyze_network_intelligence_def
      analyze_fraud_patterns_def detect_sim_cloning_def detect_dual_sim_def
      detect_bot_behavior_def assess_location_risk_def check_fraud_patterns_def
      select_max_confidence_def Let_def
      cong: sum.case_cong option.case_cong if_cong)

text \<open>
  Claim C8, as the code has it. The engine validates nothing: the attempt's user id is
  never read, so an attempt under another user id gets the same outcome as one under
  the profile's, with no InvalidInput error. For a profile and an attempt that carry
  every field, the analysis returns a result whenever its geospatial layer returns,
  and the decision on that result is the status.
\<close>

theorem analysis_no_validation:
  "comprehensive_risk_analysis w user (login\<lparr>user_id := uid\<rparr>)
       = comprehensive_risk_analysis w user login
   \<and> authenticate w user (login\<lparr>user_id := uid\<rparr>) = authenticate w user login
   \<and> (analyze_geospatial_intelligence (rnd w) user login = Inr geo
      \<longrightarrow> (\<exists>res d'. comprehensive_risk_analysis w user login = Inr (res, d')
             \<and> authenticate w user login
                 = Inr (decision_status (fst res) (fst (snd res)), res)))"
proof (intro conjI impI)
  show c: "comprehensive_risk_analysis w user (login\<lparr>user_id := uid\<rparr>)
       = comprehensive_risk_analysis w user login"
    unfolding comprehensive_risk_analysis_def by (simp only: login_user_id_unread)
  show "authenticate w user (login\<lparr>user_id := uid\<rparr>) = authenticate w user login"
    unfolding authenticate_def by (simp only: c)
next
  assume "analyze_geospatial_intelligence (rnd w) user login = Inr geo"
  from comprehensive_layers[OF this]
  obtain res d' where r: "comprehensive_risk_analysis w user login = Inr (res, d')"
    by blast
  then show "\<exists>res d'. comprehensive_risk_analysis w user login = Inr (res, d')
        \<and> authenticate w user login = Inr (decision_status (fst res) (fst (snd res)), res)"
    by (simp add: authenticate_def)
qed

theorem analysis_no_validation_witness:
  "analyze_geospatial_intelligence (rnd noon_world) demo_user demo_user = Inr (0, [])
   \<and> comprehensive_risk_analysis noon_world demo_user (demo_user\<lparr>user_id := ''U9''\<rparr>)
     = comprehensive_risk_analysis noon_world demo_user demo_user
   \<and> authenticate noon_world demo_user (demo_user\<lparr>user_id := ''U9''\<rparr>)
     = authenticate noon_world demo_user demo_user
   \<and> (\<exists>res d'. comprehensive_risk_analysis noon_world demo_user demo_user = Inr (res, d')
        \<and> authenticate noon_world demo_user demo_user
            = Inr (decision_status (fst res) (fst (snd res)), res))"
proof -
  have g: "analyze_geospatial_intelligence (rnd noon_world) demo_user demo_user = Inr (0, [])"
    by (simp add: layer_defs example_defs calculate_distance_same)
  show ?thesis
    using g analysis_no_validation[where w = noon_world and user = demo_user
        and login = demo_user and uid = "''U9''" and geo = "(0, [])"]
    by simp
qed

text \<open>
  Claim C8 as stated fails: an attempt whose user id differs from the profile's is
  scored and APPROVED, where the claim has an InvalidInput error.
\<close>

theorem user_id_mismatch_counterexample:
  "user_id (demo_user\<lparr>user_id := ''U9''\<rparr>) \<noteq> user_id demo_user
   \<and> authenticate noon_world demo_user (demo_user\<lparr>user_id := ''U9''\<rparr>)
       = Inr (APPROVED, 0, [],
              [(''device_analysis'', 0), (''sim_analysis'', 0), (''geospatial_analysis'', 0),
               (''behavioral_analysis'', 0), (''temporal_analysis'', 0),
               (''network_analysis'', 0), (''pattern_analysis'', 0)], 0.92)"
  by (simp add: authenticate_def comprehensive_risk_analysis_def layer_defs example_defs
      calculate_distance_same decision_status_def)

end
